theory Spec2Isabelle
  imports Complex_Main
begin

section \<open>Zero-coupon curve and forward-rate agreement of \<open>interest_rate_prod.py\<close>\<close>

text \<open>
  The module has two classes: \<open>ZCB_curve\<close> (a curve of zero-coupon yields and discount
  factors over a list of maturities) and \<open>FRA\<close> (a forward-rate agreement priced on such a
  curve). Both are embedded here function by function.

  Conventions of the embedding.
  \<^item> Python's \<open>float\<close> and numpy's \<open>float64\<close> are modelled by \<^typ>\<open>real\<close>: arithmetic is
    exact and there is no rounding. The arrays and the fields of the two classes hold
    reals, so a numpy operation on them that would produce \<open>inf\<close> or \<open>nan\<close> (division by
    zero, a negative base under a fractional power, the logarithm of a non-positive
    number) has no counterpart there; the theorems below exclude such inputs by their
    hypotheses. The result of \<open>get_forward_rate\<close>, whose continuous branch runs through
    \<open>np.exp\<close>, is a \<open>float64\<close> with \<open>inf\<close> and \<open>nan\<close> (\<open>npfloat\<close>).
  \<^item> Every exception the code can raise is a value of \<open>error\<close>, and every function returns
    \<open>error + result\<close>.
  \<^item> A \<open>datetime.date\<close> is its proleptic Gregorian ordinal (\<open>date.toordinal()\<close>), so the
    difference of two dates in days is the difference of the ordinals.
  \<^item> \<open>datetime.strptime(s, '%Y-%m-%d')\<close> is a library function; it is a parameter \<open>cal\<close>
    of the functions that parse dates.
  \<^item> Diagnostic \<open>print\<close> calls are left out, but the expressions they evaluate are kept
    where they can raise.
\<close>

subsection \<open>Python values and errors\<close>

datatype error =
  AssertionError | TypeError | ValueError | UnboundLocalError | OverflowError
  | ZeroDivisionError

text \<open>The values a time argument can take: an \<open>int\<close>, a \<open>float\<close>, a \<open>str\<close>, or something
  else (represented by \<open>None\<close>).\<close>

datatype pyval = PyInt int | PyFloat real | PyStr string | PyNone

datatype pytype = TInt | TFloat | TStr | TNoneType

fun py_type :: "pyval \<Rightarrow> pytype" where
  "py_type (PyInt n) = TInt"
| "py_type (PyFloat x) = TFloat"
| "py_type (PyStr s) = TStr"
| "py_type PyNone = TNoneType"

text \<open>The number a numeric Python value stands for (\<open>isinstance(v, (int, float))\<close>).\<close>

fun num_of :: "pyval \<Rightarrow> real option" where
  "num_of (PyInt n) = Some (real_of_int n)"
| "num_of (PyFloat x) = Some x"
| "num_of (PyStr s) = None"
| "num_of PyNone = None"

definition ebind :: "error + 'a \<Rightarrow> ('a \<Rightarrow> error + 'b) \<Rightarrow> error + 'b" where
  "ebind m f = (case m of Inl e \<Rightarrow> Inl e | Inr a \<Rightarrow> f a)"

subsection \<open>Dates\<close>

type_synonym date = int

type_synonym calendar = "string \<Rightarrow> int option"

definition MINORDINAL :: int where "MINORDINAL = 1"
definition MAXORDINAL :: int where "MAXORDINAL = 3652059"

text \<open>\<open>dt.datetime.strptime(s, '%Y-%m-%d').date()\<close>: the calendar \<open>cal\<close> gives the ordinal of
  the date a string denotes, \<open>None\<close> when the string does not match the format. The format
  \<open>%Y\<close> only admits the years 1 to 9999, so every parsed date lies between the ordinals of
  0001-01-01 and 9999-12-31; \<open>None\<close> stands for the \<open>ValueError\<close> of \<open>strptime\<close>.\<close>

definition strptime_date :: "calendar \<Rightarrow> string \<Rightarrow> date option" where
  "strptime_date cal s =
     (case cal s of
        None \<Rightarrow> None
      | Some d \<Rightarrow> if MINORDINAL \<le> d \<and> d \<le> MAXORDINAL then Some d else None)"

text \<open>Python's \<open>round\<close> on a float: to the nearest integer, ties to the even one.\<close>

definition round_half_even :: "real \<Rightarrow> int" where
  "round_half_even x =
     (let f = \<lfloor>x\<rfloor> in
      if x - real_of_int f < 1 / 2 then f
      else if x - real_of_int f > 1 / 2 then f + 1
      else if even f then f else f + 1)"

text \<open>\<open>dt.timedelta(days=v).days\<close> for a number \<open>v\<close>: an \<open>int\<close> is taken as it is, a \<open>float\<close>
  is rounded to whole microseconds and the days are the floor of the result. More than
  999999999 days in either direction is an \<open>OverflowError\<close>.\<close>

definition timedelta_days :: "pyval \<Rightarrow> error + int" where
  "timedelta_days v =
     (case v of
        PyInt n \<Rightarrow> if \<bar>n\<bar> > 999999999 then Inl OverflowError else Inr n
      | PyFloat x \<Rightarrow>
          (let d = round_half_even (x * 86400000000) div 86400000000
           in if \<bar>d\<bar> > 999999999 then Inl OverflowError else Inr d)
      | _ \<Rightarrow> Inl TypeError)"

text \<open>\<open>date + timedelta\<close>: only the days of the \<open>timedelta\<close> count, and a result outside
  the supported range is an \<open>OverflowError\<close>.\<close>

definition date_add :: "date \<Rightarrow> pyval \<Rightarrow> error + date" where
  "date_add d v =
     ebind (timedelta_days v) (\<lambda>n.
       if MINORDINAL \<le> d + n \<and> d + n \<le> MAXORDINAL then Inr (d + n)
       else Inl OverflowError)"

subsection \<open>numpy operations\<close>

text \<open>\<open>x ** a\<close> on \<open>float64\<close>. Any base to the power 0 is 1; a negative base to a whole
  exponent is the integer power, with its sign; for a positive base, and for base 0 with a
  positive exponent, the result is the real power. numpy gives \<open>inf\<close> for base 0 with a
  negative exponent and \<open>nan\<close> for a negative base with a fractional exponent: these two
  cases are outside the model (see the conventions above), and no theorem below relies
  on the value the last branch has there.\<close>

definition np_power :: "real \<Rightarrow> real \<Rightarrow> real" where
  "np_power x a =
     (if a = 0 then 1
      else if x < 0 \<and> real_of_int \<lfloor>a\<rfloor> = a then power_int x \<lfloor>a\<rfloor>
      else x powr a)"

text \<open>A \<open>float64\<close> result that may be infinite or not a number.\<close>

datatype npfloat = Finite real | PosInf | NegInf | NaN

text \<open>\<open>np.exp\<close>: the result overflows to \<open>inf\<close> from the rounding boundary above the largest
  double, \<open>2^1024 - 2^970\<close>, and underflows to 0 up to half the smallest subnormal,
  \<open>2^-1075\<close>.\<close>

definition np_exp :: "real \<Rightarrow> npfloat" where
  "np_exp x =
     (if 2 ^ 1024 - 2 ^ 970 \<le> exp x then PosInf
      else if exp x \<le> 1 / 2 ^ 1075 then Finite 0
      else Finite (exp x))"

text \<open>\<open>np.log\<close>: \<open>-inf\<close> at 0, \<open>nan\<close> for a negative argument.\<close>

fun np_log :: "npfloat \<Rightarrow> npfloat" where
  "np_log (Finite v) = (if 0 < v then Finite (ln v) else if v = 0 then NegInf else NaN)"
| "np_log PosInf = PosInf"
| "np_log NegInf = NaN"
| "np_log NaN = NaN"

text \<open>A \<open>float64\<close> divided by a Python float: numpy does not raise for a zero divisor
  (here the zero is \<open>T - t\<close> for equal times, a positive zero).\<close>

fun np_divide :: "npfloat \<Rightarrow> real \<Rightarrow> npfloat" where
  "np_divide (Finite a) d =
     (if d \<noteq> 0 then Finite (a / d)
      else if 0 < a then PosInf else if a < 0 then NegInf else NaN)"
| "np_divide PosInf d = (if 0 \<le> d then PosInf else NegInf)"
| "np_divide NegInf d = (if 0 \<le> d then NegInf else PosInf)"
| "np_divide NaN d = NaN"

text \<open>\<open>np.interp(x, xp, fp)\<close> for increasing \<open>xp\<close>, as numpy documents it: the value of the
  piecewise linear interpolant through the points \<open>(xp[i], fp[i])\<close>, \<open>fp[0]\<close> to the left of
  \<open>xp[0]\<close> and \<open>fp[-1]\<close> to the right of \<open>xp[-1]\<close>. numpy raises \<open>ValueError\<close> for an empty
  \<open>xp\<close> and for \<open>xp\<close> and \<open>fp\<close> of different lengths. (For \<open>xp\<close> that is not increasing
  numpy leaves the result unspecified.)\<close>

fun interp_seg :: "real \<Rightarrow> (real \<times> real) list \<Rightarrow> real" where
  "interp_seg x [] = 0"
| "interp_seg x [(x0, y0)] = y0"
| "interp_seg x ((x0, y0) # (x1, y1) # ps) =
     (if x < x1 then
        (if x = x0 then y0 else (y1 - y0) / (x1 - x0) * (x - x0) + y0)
      else interp_seg x ((x1, y1) # ps))"

definition np_interp :: "real \<Rightarrow> real list \<Rightarrow> real list \<Rightarrow> error + real" where
  "np_interp x xp fp =
     (if xp = [] then Inl ValueError
      else if length xp \<noteq> length fp then Inl ValueError
      else if x < hd xp then Inr (hd fp)
      else if x > last xp then Inr (last fp)
      else Inr (interp_seg x (zip xp fp)))"

subsection \<open>\<open>ZCB_curve\<close>\<close>

definition DAYS_IN_YEAR :: real where
  "DAYS_IN_YEAR = 365"

record ZCB_curve =
  zcb_t :: date
  zcb_T_s :: "real list"
  zcb_r_s :: "real list"
  zcb_r_s_type :: string
  zcb_compounding :: real
  zcb_dcf :: "real list"

text \<open>\<open>ZCB_curve.__init__(t, T_s, r_s, r_s_type, compounding)\<close>. The arithmetic on the
  numpy arrays is element by element.\<close>

definition ZCB_curve_init ::
  "calendar \<Rightarrow> string \<Rightarrow> real list \<Rightarrow> real list \<Rightarrow> string \<Rightarrow> real \<Rightarrow> error + ZCB_curve" where
  "ZCB_curve_init cal t T_s r_s r_s_type compounding =
     (if length T_s \<noteq> length r_s then Inl AssertionError
      else if r_s_type \<notin> set [''yield'', ''discount factor''] then Inl AssertionError
      else case strptime_date cal t of
        None \<Rightarrow> Inl ValueError
      | Some d \<Rightarrow>
          if r_s_type = ''yield'' then
            (if compounding \<noteq> 0 then
               Inr \<lparr>zcb_t = d, zcb_T_s = T_s, zcb_r_s = r_s, zcb_r_s_type = ''yield'',
                    zcb_compounding = compounding,
                    zcb_dcf = map2 (\<lambda>r T. 1 / np_power (1 + r * compounding / 100)
                                                        (T / compounding)) r_s T_s\<rparr>
             else
               Inr \<lparr>zcb_t = d, zcb_T_s = T_s, zcb_r_s = r_s, zcb_r_s_type = ''yield'',
                    zcb_compounding = compounding,
                    zcb_dcf = map2 (\<lambda>r T. exp (- r * T / 100)) r_s T_s\<rparr>)
          else
            (if compounding \<noteq> 0 then
               Inr \<lparr>zcb_t = d, zcb_T_s = T_s,
                    zcb_r_s = map2 (\<lambda>p T. (np_power (1 / p) (compounding / T) - 1)
                                            / compounding) r_s T_s,
                    zcb_r_s_type = ''yield'', zcb_compounding = compounding,
                    zcb_dcf = r_s\<rparr>
             else
               Inr \<lparr>zcb_t = d, zcb_T_s = T_s,
                    zcb_r_s = map2 (\<lambda>p T. ln (1 / p) / T) r_s T_s,
                    zcb_r_s_type = ''yield'', zcb_compounding = compounding,
                    zcb_dcf = r_s\<rparr>))"

text \<open>\<open>get_curve(interpo, which)\<close> returns a function of the time, or \<open>None\<close> (after
  printing a message) when \<open>interpo\<close> is not \<open>'linear'\<close>.\<close>

definition get_curve ::
  "ZCB_curve \<Rightarrow> string \<Rightarrow> string \<Rightarrow> error + (real \<Rightarrow> error + real) option" where
  "get_curve c interpo which =
     (if which \<notin> set [''yield'', ''discount factor''] then Inl AssertionError
      else if interpo = ''linear'' then
        (if which = ''yield'' then
           Inr (Some (\<lambda>t. np_interp t (zcb_T_s c) (zcb_r_s c)))
         else
           Inr (Some (\<lambda>t. np_interp t (zcb_T_s c) (zcb_dcf c))))
      else Inr None)"

text \<open>Calling what \<open>get_curve\<close> returned: calling \<open>None\<close> is a \<open>TypeError\<close>.\<close>

definition call_curve :: "(real \<Rightarrow> error + real) option \<Rightarrow> real \<Rightarrow> error + real" where
  "call_curve curve x = (case curve of None \<Rightarrow> Inl TypeError | Some f \<Rightarrow> f x)"

text \<open>The first block of "type manipulation" of \<open>get_discount_factor\<close> and
  \<open>get_forward_rate\<close> (the two functions have the same text). It returns the local
  variable \<open>tdt\<close>, which is bound only when \<open>t\<close> is a string, and the numeric \<open>t\<close>.
  Comparing \<open>None\<close> with a number is a \<open>TypeError\<close>.\<close>

definition resolve_t :: "calendar \<Rightarrow> ZCB_curve \<Rightarrow> pyval \<Rightarrow> error + (date option \<times> real)" where
  "resolve_t cal c t =
     (case t of
        PyStr s \<Rightarrow>
          (case strptime_date cal s of
             None \<Rightarrow> Inl ValueError
           | Some tdt \<Rightarrow>
               if zcb_t c \<le> tdt
               then Inr (Some tdt, real_of_int (tdt - zcb_t c) / DAYS_IN_YEAR)
               else Inl AssertionError)
      | _ \<Rightarrow>
          (case num_of t of
             None \<Rightarrow> Inl TypeError
           | Some x \<Rightarrow> if x \<ge> 0 then Inr (None, x) else Inl AssertionError))"

text \<open>The second block: \<open>T\<close>, given the local \<open>tdt\<close> and the numeric \<open>t\<close> of the first. Reading
  the unbound \<open>tdt\<close> is an \<open>UnboundLocalError\<close>.\<close>

definition resolve_T ::
  "calendar \<Rightarrow> ZCB_curve \<Rightarrow> date option \<Rightarrow> real \<Rightarrow> pyval \<Rightarrow> error + real" where
  "resolve_T cal c tdt t T =
     (case T of
        PyStr s \<Rightarrow>
          (case strptime_date cal s of
             None \<Rightarrow> Inl ValueError
           | Some Tdt \<Rightarrow>
               (case tdt of
                  None \<Rightarrow> Inl UnboundLocalError
                | Some d \<Rightarrow>
                    if d \<le> Tdt
                    then Inr (real_of_int (Tdt - zcb_t c) / DAYS_IN_YEAR)
                    else Inl AssertionError))
      | _ \<Rightarrow>
          (case num_of T of
             None \<Rightarrow> Inl TypeError
           | Some x \<Rightarrow> if t < x then Inr x else Inl AssertionError))"

text \<open>\<open>get_discount_factor(t, T, interpo)\<close>: \<open>curve(T) / curve(t)\<close>.\<close>

definition get_discount_factor ::
  "calendar \<Rightarrow> ZCB_curve \<Rightarrow> pyval \<Rightarrow> pyval \<Rightarrow> string \<Rightarrow> error + real" where
  "get_discount_factor cal c t T interpo =
     ebind (resolve_t cal c t) (\<lambda>(tdt, tn).
     ebind (resolve_T cal c tdt tn T) (\<lambda>Tn.
     ebind (get_curve c interpo ''discount factor'') (\<lambda>curve.
     ebind (call_curve curve Tn) (\<lambda>pT.
     ebind (call_curve curve tn) (\<lambda>pt.
     Inr (pT / pt))))))"

text \<open>\<open>get_forward_rate(t, T, interpo, compounding)\<close>. In the periodic branch the exponent
  \<open>compounding/(T-t)\<close> is a division of Python floats, which raises \<open>ZeroDivisionError\<close>
  when \<open>T = t\<close>. The continuous branch is \<open>np.log(np.exp(...))/(T-t)\<close>, as written.\<close>

definition get_forward_rate ::
  "calendar \<Rightarrow> ZCB_curve \<Rightarrow> pyval \<Rightarrow> pyval \<Rightarrow> string \<Rightarrow> real \<Rightarrow> error + npfloat" where
  "get_forward_rate cal c t T interpo compounding =
     ebind (resolve_t cal c t) (\<lambda>(tdt, tn).
     ebind (resolve_T cal c tdt tn T) (\<lambda>Tn.
     ebind (get_curve c interpo ''yield'') (\<lambda>curve.
     ebind (call_curve curve Tn) (\<lambda>yT.
     ebind (call_curve curve tn) (\<lambda>yt.
       if compounding \<noteq> 0 then
         (if Tn - tn = 0 then Inl ZeroDivisionError
          else Inr (Finite ((np_power
                       (np_power (1 + compounding * yT) (Tn / compounding)
                        / np_power (1 + compounding * yt) (tn / compounding))
                       (compounding / (Tn - tn)) - 1) / compounding)))
       else Inr (np_divide (np_log (np_exp (yT * Tn - yt * tn))) (Tn - tn)))))))"

subsection \<open>\<open>FRA\<close>\<close>

record FRA =
  fra_t :: string
  fra_tau :: real
  fra_N :: real
  fra_ZCB_init :: ZCB_curve
  fra_compounding :: real
  fra_dtt :: date
  fra_dtT :: date
  fra_dtS :: date
  fra_T :: real
  fra_S :: real
  fra_K :: real

text \<open>The numerical and the date version of \<open>T\<close> and \<open>S\<close> (lines 129 to 144 of the source),
  after \<open>type(T) == type(S)\<close> has been asserted: the result is
  \<open>(dtT, dtS, self.T, self.S, self.tau)\<close>. The accrual check \<open>self.tau == (S - T)/365\<close>
  compares floats in the code and reals here: the two agree when \<open>tau\<close> was computed by
  the same expression or without rounding error, and the code can refuse a \<open>tau\<close> that is
  equal only as a real.\<close>

definition FRA_times ::
  "calendar \<Rightarrow> date \<Rightarrow> pyval \<Rightarrow> pyval \<Rightarrow> real \<Rightarrow> error + (date \<times> date \<times> real \<times> real \<times> real)" where
  "FRA_times cal dtt T S tau =
     (case (T, S) of
        (PyStr sT, PyStr sS) \<Rightarrow>
          (case strptime_date cal sT of
             None \<Rightarrow> Inl ValueError
           | Some dtT \<Rightarrow>
               (case strptime_date cal sS of
                  None \<Rightarrow> Inl ValueError
                | Some dtS \<Rightarrow>
                    Inr (dtT, dtS,
                         real_of_int (dtT - dtt) / DAYS_IN_YEAR,
                         real_of_int (dtS - dtt) / DAYS_IN_YEAR,
                         real_of_int (dtS - dtT) / DAYS_IN_YEAR)))
      | _ \<Rightarrow>
          (case (num_of T, num_of S) of
             (Some Tn, Some Sn) \<Rightarrow>
               ebind (date_add dtt T) (\<lambda>dtT.
               ebind (date_add dtt S) (\<lambda>dtS.
                 if tau = (Sn - Tn) / 365 then Inr (dtT, dtS, Tn, Sn, tau)
                 else Inl AssertionError))
           | _ \<Rightarrow> Inl TypeError))"

text \<open>\<open>FRA.__init__(t, T, S, tau, N, ZCB_init, compounding)\<close>.\<close>

definition FRA_init ::
  "calendar \<Rightarrow> string \<Rightarrow> pyval \<Rightarrow> pyval \<Rightarrow> real \<Rightarrow> real \<Rightarrow> ZCB_curve \<Rightarrow> real \<Rightarrow> error + FRA" where
  "FRA_init cal t T S tau N ZCB_init compounding =
     (if py_type T \<noteq> py_type S then Inl AssertionError
      else case strptime_date cal t of
        None \<Rightarrow> Inl ValueError
      | Some dtt \<Rightarrow>
          ebind (FRA_times cal dtt T S tau) (\<lambda>(dtT, dtS, Tn, Sn, tau').
            if \<not> dtT < dtS then Inl AssertionError
            else if dtt \<noteq> zcb_t ZCB_init then Inl AssertionError
            else
              ebind (get_curve ZCB_init ''linear'' ''discount factor'') (\<lambda>ZCB_cur.
              ebind (call_curve ZCB_cur (Tn / DAYS_IN_YEAR)) (\<lambda>pT.
              ebind (call_curve ZCB_cur (Sn / DAYS_IN_YEAR)) (\<lambda>pS.
                Inr \<lparr>fra_t = t, fra_tau = tau', fra_N = N, fra_ZCB_init = ZCB_init,
                     fra_compounding = compounding, fra_dtt = dtt, fra_dtT = dtT,
                     fra_dtS = dtS, fra_T = Tn, fra_S = Sn,
                     fra_K = (pT / pS - 1) / tau'\<rparr>)))))"

definition get_price :: "FRA \<Rightarrow> real" where
  "get_price f = fra_K f"

definition set_price :: "FRA \<Rightarrow> real \<Rightarrow> FRA" where
  "set_price f K = f\<lparr>fra_K := K\<rparr>"

text \<open>\<open>365 * t\<close> for a numeric \<open>t\<close>, as the message of \<open>get_value\<close> computes it.\<close>

fun times_days_in_year :: "pyval \<Rightarrow> pyval" where
  "times_days_in_year (PyInt n) = PyInt (365 * n)"
| "times_days_in_year (PyFloat x) = PyFloat (365 * x)"
| "times_days_in_year v = v"

text \<open>The forward rate \<open>f(t:T,S)\<close> and the value, the two lines shared by both branches of
  \<open>get_value\<close>. For a zero discount factor at \<open>S\<close> numpy divides to \<open>inf\<close> or \<open>nan\<close> (here
  and in the fair rate of the constructor); the theorems on values exclude that case by
  hypothesis or evaluate at a nonzero one.\<close>

definition value_at :: "FRA \<Rightarrow> (real \<Rightarrow> error + real) option \<Rightarrow> real \<Rightarrow> error + real" where
  "value_at f ZCB_cur_t t =
     ebind (call_curve ZCB_cur_t ((fra_T f - t) / DAYS_IN_YEAR)) (\<lambda>pT.
     ebind (call_curve ZCB_cur_t ((fra_S f - t) / DAYS_IN_YEAR)) (\<lambda>pS.
       Inr (fra_N f * fra_tau f * ((pT / pS - 1) / fra_tau f - fra_K f))))"

text \<open>\<open>FRA.get_value(t, ZCB)\<close>. The message printed for a numeric \<open>t\<close> computes the date
  \<open>self.dtt + timedelta(days=365*t)\<close>, which can overflow.\<close>

definition get_value :: "calendar \<Rightarrow> FRA \<Rightarrow> pyval \<Rightarrow> ZCB_curve \<Rightarrow> error + real" where
  "get_value cal f t ZCB =
     ebind (get_curve ZCB ''linear'' ''discount factor'') (\<lambda>ZCB_cur_t.
       case num_of t of
         Some tn \<Rightarrow>
           if \<not> tn \<le> fra_T f then Inl AssertionError
           else
             ebind (date_add (fra_dtt f) (times_days_in_year t)) (\<lambda>_.
               value_at f ZCB_cur_t tn)
       | None \<Rightarrow>
           (case t of
              PyStr s \<Rightarrow>
                (case strptime_date cal s of
                   None \<Rightarrow> Inl ValueError
                 | Some dtt \<Rightarrow>
                     if fra_dtt f \<le> dtt \<and> dtt \<le> fra_dtT f
                     then value_at f ZCB_cur_t (real_of_int (dtt - fra_dtt f) / DAYS_IN_YEAR)
                     else Inl AssertionError)
            | _ \<Rightarrow> Inl TypeError))"

subsection \<open>A worked example\<close>

text \<open>The example of the specification: reference date 2023-06-01, maturities of half a
  year and one year, yields of 5 and 5.5 percent, semiannual compounding. The calendar lists
  the ordinals (\<open>date.toordinal()\<close>) of the dates the examples use.\<close>

definition example_calendar :: calendar where
  "example_calendar =
     map_of [(''2023-06-01'', 738672), (''2023-09-01'', 738764), (''2023-12-01'', 738855)]"

definition example_curve :: ZCB_curve where
  "example_curve =
     \<lparr>zcb_t = 738672, zcb_T_s = [1 / 2, 1], zcb_r_s = [5, 11 / 2],
      zcb_r_s_type = ''yield'', zcb_compounding = 1 / 2,
      zcb_dcf = [40 / 41, 160000 / 168921]\<rparr>"

text \<open>The agreement from 2023-09-01 to 2023-12-01 (92 and 183 days after inception), once
  as the constructor stores it when it is given the two dates, once when it is given the
  two day offsets.\<close>

definition example_FRA_dates :: FRA where
  "example_FRA_dates =
     \<lparr>fra_t = ''2023-06-01'', fra_tau = 91 / 365, fra_N = 1000000,
      fra_ZCB_init = example_curve, fra_compounding = 1 / 2,
      fra_dtt = 738672, fra_dtT = 738764, fra_dtS = 738855,
      fra_T = 92 / 365, fra_S = 183 / 365, fra_K = 0\<rparr>"

definition example_FRA_days :: FRA where
  "example_FRA_days =
     \<lparr>fra_t = ''2023-06-01'', fra_tau = 91 / 365, fra_N = 1000000,
      fra_ZCB_init = example_curve, fra_compounding = 1 / 2,
      fra_dtt = 738672, fra_dtT = 738764, fra_dtS = 738855,
      fra_T = 92, fra_S = 183, fra_K = 256595 / 801466172\<rparr>"

text \<open>An agreement whose maturity lies ten days before inception; the constructor
  accepts it.\<close>

definition example_FRA_early :: FRA where
  "example_FRA_early =
     \<lparr>fra_t = ''2023-06-01'', fra_tau = 30 / 365, fra_N = 1000000,
      fra_ZCB_init = example_curve, fra_compounding = 1 / 2,
      fra_dtt = 738672, fra_dtT = 738662, fra_dtS = 738692,
      fra_T = - 10, fra_S = 20, fra_K = 0\<rparr>"

text \<open>A continuously compounded curve with yields of 5 and 6 percent at one and two
  years.\<close>

definition example_curve_continuous :: ZCB_curve where
  "example_curve_continuous =
     \<lparr>zcb_t = 738672, zcb_T_s = [1, 2], zcb_r_s = [5, 6],
      zcb_r_s_type = ''yield'', zcb_compounding = 0,
      zcb_dcf = [exp (- 5 * 1 / 100), exp (- 6 * 2 / 100)]\<rparr>"

subsection \<open>Basic facts\<close>

lemma ebind_Inl: "ebind (Inl e) f = Inl e"
  by (simp add: ebind_def)

lemma ebind_Inr: "ebind (Inr a) f = f a"
  by (simp add: ebind_def)


lemma strptime_date_range:
  "strptime_date cal s = Some d \<Longrightarrow> MINORDINAL \<le> d \<and> d \<le> MAXORDINAL"
  by (auto simp: strptime_date_def split: option.splits if_splits)

lemma np_power_pos: "0 < x \<Longrightarrow> np_power x a = x powr a"
  by (simp add: np_power_def)

lemma np_power_neg_int: "x < 0 \<Longrightarrow> np_power x (real_of_int n) = power_int x n"
  by (simp add: np_power_def)

lemma get_curve_linear_discount:
  "get_curve c ''linear'' ''discount factor''
     = Inr (Some (\<lambda>x. np_interp x (zcb_T_s c) (zcb_dcf c)))"
  by (simp add: get_curve_def)

lemma resolve_t_num:
  "num_of t = Some x \<Longrightarrow>
     resolve_t cal c t = (if 0 \<le> x then Inr (None, x) else Inl AssertionError)"
  by (cases t) (auto simp: resolve_t_def)

lemma resolve_T_num:
  "num_of T = Some y \<Longrightarrow>
     resolve_T cal c tdt x T = (if x < y then Inr y else Inl AssertionError)"
  by (cases T) (auto simp: resolve_T_def)

subsection \<open>The worked example, evaluated\<close>

lemma cal_0601: "strptime_date example_calendar ''2023-06-01'' = Some 738672"
  by (simp add: strptime_date_def example_calendar_def MINORDINAL_def MAXORDINAL_def)

lemma cal_0901: "strptime_date example_calendar ''2023-09-01'' = Some 738764"
  by (simp add: strptime_date_def example_calendar_def MINORDINAL_def MAXORDINAL_def)

lemma cal_1201: "strptime_date example_calendar ''2023-12-01'' = Some 738855"
  by (simp add: strptime_date_def example_calendar_def MINORDINAL_def MAXORDINAL_def)

lemma example_curve_init:
  "ZCB_curve_init example_calendar ''2023-06-01'' [1 / 2, 1] [5, 11 / 2] ''yield'' (1 / 2)
     = Inr example_curve"
  by (simp add: ZCB_curve_init_def cal_0601 example_curve_def np_power_def power_divide)

lemma example_curve_continuous_init:
  "ZCB_curve_init example_calendar ''2023-06-01'' [1, 2] [5, 6] ''yield'' 0
     = Inr example_curve_continuous"
  by (simp add: ZCB_curve_init_def cal_0601 example_curve_continuous_def)

lemma example_sqrt: "(168921 / 160000 :: real) powr (1 / 2) = 411 / 400"
proof -
  have e: "(168921 / 160000 :: real) = (411 / 400) powr 2"
    by (simp add: power_divide)
  have "(168921 / 160000 :: real) powr (1 / 2) = ((411 / 400) powr 2) powr (1 / 2)"
    using arg_cong[OF e, of "\<lambda>x. x powr (1 / 2)"] .
  also have "\<dots> = 411 / 400"
    by (simp only: powr_powr) simp
  finally show ?thesis .
qed

lemma example_curve_from_discount_factors:
  "ZCB_curve_init example_calendar ''2023-06-01'' [1 / 2, 1] (zcb_dcf example_curve)
       ''discount factor'' (1 / 2)
     = Inr (example_curve\<lparr>zcb_r_s := [1 / 20, 11 / 200]\<rparr>)"
  by (simp add: ZCB_curve_init_def cal_0601 example_curve_def np_power_def example_sqrt)

lemma example_FRA_dates_init:
  "FRA_init example_calendar ''2023-06-01'' (PyStr ''2023-09-01'') (PyStr ''2023-12-01'')
       (91 / 365) 1000000 example_curve (1 / 2)
     = Inr example_FRA_dates"
  by (simp add: FRA_init_def FRA_times_def cal_0601 cal_0901 cal_1201 ebind_def
        get_curve_def call_curve_def np_interp_def example_curve_def
        example_FRA_dates_def DAYS_IN_YEAR_def)

lemma example_FRA_days_init:
  "FRA_init example_calendar ''2023-06-01'' (PyInt 92) (PyInt 183)
       (91 / 365) 1000000 example_curve (1 / 2)
     = Inr example_FRA_days"
  by (simp add: FRA_init_def FRA_times_def cal_0601 ebind_def get_curve_def
        call_curve_def np_interp_def example_curve_def example_FRA_days_def
        DAYS_IN_YEAR_def date_add_def timedelta_days_def MINORDINAL_def MAXORDINAL_def)

lemma example_FRA_early_init:
  "FRA_init example_calendar ''2023-06-01'' (PyInt (- 10)) (PyInt 20)
       (30 / 365) 1000000 example_curve (1 / 2)
     = Inr example_FRA_early"
  by (simp add: FRA_init_def FRA_times_def cal_0601 ebind_def get_curve_def
        call_curve_def np_interp_def example_curve_def example_FRA_early_def
        DAYS_IN_YEAR_def date_add_def timedelta_days_def MINORDINAL_def MAXORDINAL_def)

subsection \<open>Construction of a curve\<close>

lemma ZCB_curve_init_yield:
  assumes "ZCB_curve_init cal t T_s r_s ''yield'' f = Inr c"
  shows "length r_s = length T_s"
    and "zcb_dcf c =
          (if f \<noteq> 0 then map2 (\<lambda>r T. 1 / np_power (1 + r * f / 100) (T / f)) r_s T_s
           else map2 (\<lambda>r T. exp (- r * T / 100)) r_s T_s)"
  using assms by (auto simp: ZCB_curve_init_def split: if_splits option.splits)

lemma ZCB_curve_init_discount:
  assumes "ZCB_curve_init cal t T_s p_s ''discount factor'' f = Inr c"
  shows "length p_s = length T_s"
    and "zcb_r_s c =
          (if f \<noteq> 0 then map2 (\<lambda>p T. (np_power (1 / p) (f / T) - 1) / f) p_s T_s
           else map2 (\<lambda>p T. ln (1 / p) / T) p_s T_s)"
    and "zcb_dcf c = p_s"
  using assms by (auto simp: ZCB_curve_init_def split: if_splits option.splits)

text \<open>
  Claim C3. Maturities \<open>T_s\<close> and yields \<open>r_s\<close> (in percent) of equal length, with a
  reference date that parses, always give a curve of rate kind \<open>'yield'\<close>, and the curve
  stores one discount factor for each maturity. For a nonzero compounding frequency \<open>f\<close>
  the discount factor is \<open>(1 + r f/100)\<close> to the power \<open>- T/f\<close>: the real power for a
  positive base, the integer power for a negative base and a whole exponent \<open>T/f\<close>. For
  \<open>f = 0\<close> it is \<open>exp (- r T/100)\<close>.
\<close>

theorem yield_discount_factors:
  assumes "length T_s = length r_s" and "strptime_date cal t = Some d"
  shows "\<exists>c. ZCB_curve_init cal t T_s r_s ''yield'' f = Inr c
     \<and> length (zcb_dcf c) = length T_s
     \<and> (\<forall>i<length T_s.
          (f \<noteq> 0 \<and> 0 < 1 + r_s ! i * f / 100 \<longrightarrow>
             zcb_dcf c ! i = (1 + r_s ! i * f / 100) powr (- (T_s ! i) / f))
        \<and> (\<forall>n. f \<noteq> 0 \<and> 1 + r_s ! i * f / 100 < 0 \<and> T_s ! i / f = real_of_int n \<longrightarrow>
             zcb_dcf c ! i = power_int (1 + r_s ! i * f / 100) (- n))
        \<and> (f = 0 \<longrightarrow> zcb_dcf c ! i = exp (- (r_s ! i) * (T_s ! i) / 100)))"
proof -
  have "\<exists>c. ZCB_curve_init cal t T_s r_s ''yield'' f = Inr c"
    using assms by (simp add: ZCB_curve_init_def)
  then obtain c where c: "ZCB_curve_init cal t T_s r_s ''yield'' f = Inr c" ..
  note h = ZCB_curve_init_yield[OF c]
  have len: "length r_s = length T_s" by (rule h(1))
  have dcf_len: "length (zcb_dcf c) = length T_s"
    using h(2) len by simp
  have elem: "zcb_dcf c ! i = 1 / np_power (1 + r_s ! i * f / 100) (T_s ! i / f)"
    if "i < length T_s" "f \<noteq> 0" for i
    using h(2) len that by simp
  have pos: "zcb_dcf c ! i = (1 + r_s ! i * f / 100) powr (- (T_s ! i) / f)"
    if "i < length T_s" "f \<noteq> 0" "0 < 1 + r_s ! i * f / 100" for i
    using elem[OF that(1,2)] that(3) by (simp add: np_power_pos powr_minus_divide)
  have neg: "zcb_dcf c ! i = power_int (1 + r_s ! i * f / 100) (- n)"
    if "i < length T_s" "f \<noteq> 0" "1 + r_s ! i * f / 100 < 0"
       "T_s ! i / f = real_of_int n" for i n
    using elem[OF that(1,2)] that(3,4)
    by (simp add: np_power_neg_int power_int_minus inverse_eq_divide)
  have cont: "zcb_dcf c ! i = exp (- (r_s ! i) * (T_s ! i) / 100)"
    if "i < length T_s" "f = 0" for i
    using h(2) len that by simp
  show ?thesis
    using c dcf_len pos neg cont by blast
qed

text \<open>The semiannual example curve (second discount factor \<open>1.0275\<close> to the power \<open>-2\<close>)
  and the continuous one (second discount factor \<open>exp (-0.12)\<close>).\<close>

theorem yield_discount_factors_witness:
  "length [1 / 2, 1 :: real] = length [5, 11 / 2 :: real]
   \<and> length [1, 2 :: real] = length [5, 6 :: real]
   \<and> strptime_date example_calendar ''2023-06-01'' = Some 738672
   \<and> ZCB_curve_init example_calendar ''2023-06-01'' [1 / 2, 1] [5, 11 / 2] ''yield'' (1 / 2)
       = Inr example_curve
   \<and> (1 / 2 :: real) \<noteq> 0 \<and> (0::real) < 1 + 11 / 2 * (1 / 2) / 100
   \<and> zcb_dcf example_curve ! 1 = (1 + 11 / 2 * (1 / 2) / 100) powr (- 1 / (1 / 2))
   \<and> ZCB_curve_init example_calendar ''2023-06-01'' [1, 2] [5, 6] ''yield'' 0
       = Inr example_curve_continuous
   \<and> zcb_dcf example_curve_continuous ! 1 = exp (- 6 * 2 / 100)"
proof -
  have l1: "length [1 / 2, 1 :: real] = length [5, 11 / 2 :: real]"
    and l2: "length [1, 2 :: real] = length [5, 6 :: real]"
    by simp_all
  have a: "zcb_dcf example_curve ! 1 = (1 + 11 / 2 * (1 / 2) / 100) powr (- 1 / (1 / 2))"
    using yield_discount_factors[OF l1 cal_0601, of "1 / 2"] example_curve_init
    by fastforce
  have b: "zcb_dcf example_curve_continuous ! 1 = exp (- 6 * 2 / 100)"
    using yield_discount_factors[OF l2 cal_0601, of 0] example_curve_continuous_init
    by fastforce
  show ?thesis
    using a b cal_0601 example_curve_init example_curve_continuous_init by simp
qed

text \<open>
  Claim C1. The claim is that a curve built from the discount factors of a curve built from
  yields stores the original yields again. The constructor divides the yields by 100
  on the way to discount factors and does not multiply by 100 on the way back: at every
  maturity other than 0 (and, for periodic compounding, a positive base \<open>1 + r f/100\<close>)
  the second curve stores the original yield divided by 100, for continuous and for
  periodic compounding.
\<close>

theorem roundtrip_yields_divided_by_100:
  assumes "ZCB_curve_init cal t T_s r_s ''yield'' f = Inr c1"
    and "ZCB_curve_init cal t T_s (zcb_dcf c1) ''discount factor'' f = Inr c2"
    and "i < length T_s" and "T_s ! i \<noteq> 0"
    and "f \<noteq> 0 \<longrightarrow> 0 < 1 + r_s ! i * f / 100"
  shows "zcb_r_s c2 ! i = r_s ! i / 100"
proof -
  note h1 = ZCB_curve_init_yield[OF assms(1)]
  note h2 = ZCB_curve_init_discount[OF assms(2)]
  have len: "length r_s = length T_s" by (rule h1(1))
  have len2: "length (zcb_dcf c1) = length T_s" by (rule h2(1))
  show ?thesis
  proof (cases "f = 0")
    case True
    have "zcb_dcf c1 ! i = exp (- (r_s ! i) * (T_s ! i) / 100)"
      using h1(2) len assms(3) True by simp
    moreover have "zcb_r_s c2 ! i = ln (1 / (zcb_dcf c1 ! i)) / (T_s ! i)"
      using h2(2) len2 assms(3) True by simp
    ultimately show ?thesis
      using assms(4) by (simp add: ln_div)
  next
    case False
    define b where "b = 1 + r_s ! i * f / 100"
    have bpos: "0 < b"
      using assms(5) False by (simp add: b_def)
    have d: "zcb_dcf c1 ! i = 1 / np_power b (T_s ! i / f)"
      using h1(2) len assms(3) False by (simp add: b_def)
    have r: "zcb_r_s c2 ! i = (np_power (1 / (zcb_dcf c1 ! i)) (f / (T_s ! i)) - 1) / f"
      using h2(2) len2 assms(3) False by simp
    have d': "1 / (zcb_dcf c1 ! i) = b powr (T_s ! i / f)"
      using d bpos by (simp add: np_power_pos)
    have "0 < b powr (T_s ! i / f)"
      using bpos by simp
    then have "np_power (1 / (zcb_dcf c1 ! i)) (f / (T_s ! i))
            = (b powr (T_s ! i / f)) powr (f / (T_s ! i))"
      unfolding d' by (rule np_power_pos)
    also have "\<dots> = b powr 1"
      using False assms(4) by (simp add: powr_powr)
    also have "\<dots> = b"
      using bpos by simp
    finally show ?thesis
      using r False by (simp add: b_def)
  qed
qed

text \<open>The example of the specification: yields of 5 and 5.5 percent come back as 0.05 and
  0.055.\<close>

theorem roundtrip_yields_divided_by_100_witness:
  "ZCB_curve_init example_calendar ''2023-06-01'' [1 / 2, 1] [5, 11 / 2] ''yield'' (1 / 2)
     = Inr example_curve
   \<and> ZCB_curve_init example_calendar ''2023-06-01'' [1 / 2, 1] (zcb_dcf example_curve)
         ''discount factor'' (1 / 2)
     = Inr (example_curve\<lparr>zcb_r_s := [1 / 20, 11 / 200]\<rparr>)
   \<and> (1::nat) < length [1 / 2, 1::real] \<and> [1 / 2, 1::real] ! 1 \<noteq> 0
   \<and> (0::real) < 1 + [5, 11 / 2] ! 1 * (1 / 2) / 100
   \<and> zcb_r_s (example_curve\<lparr>zcb_r_s := [1 / 20, 11 / 200]\<rparr>) ! 1 = [5, 11 / 2] ! 1 / 100
   \<and> zcb_r_s (example_curve\<lparr>zcb_r_s := [1 / 20, 11 / 200]\<rparr>) = [1 / 20, 11 / 200]"
  using roundtrip_yields_divided_by_100
          [OF example_curve_init example_curve_from_discount_factors, of 1]
        example_curve_init example_curve_from_discount_factors
  by simp

subsection \<open>Forward rates\<close>

text \<open>Within the range of \<open>np.exp\<close> the continuous branch is the closed form: for numeric
  times \<open>0 \<le> t < T\<close> and interpolated yields \<open>y(t)\<close>, \<open>y(T)\<close>, the result is
  \<open>(y(T) T - y(t) t) / (T - t)\<close> as long as \<open>exp (y(T) T - y(t) t)\<close> neither overflows nor
  underflows.\<close>

lemma forward_rate_continuous_in_range:
  assumes "num_of pt = Some t" and "num_of pT = Some T" and "0 \<le> t" and "t < T"
    and "get_curve c ''linear'' ''yield'' = Inr (Some y)"
    and "y t = Inr yt" and "y T = Inr yT"
    and "exp (yT * T - yt * t) < 2 ^ 1024 - 2 ^ 970"
    and "1 / 2 ^ 1075 < exp (yT * T - yt * t)"
  shows "get_forward_rate cal c pt pT ''linear'' 0
           = Inr (Finite ((yT * T - yt * t) / (T - t)))"
proof -
  have 1: "resolve_t cal c pt = Inr (None, t)"
    using assms(1,3) by (simp add: resolve_t_num)
  have 2: "resolve_T cal c None t pT = Inr T"
    using assms(2,4) by (simp add: resolve_T_num)
  have 3: "np_exp (yT * T - yt * t) = Finite (exp (yT * T - yt * t))"
    using assms(8,9) by (simp add: np_exp_def)
  show ?thesis
    using assms(4)
    by (simp add: get_forward_rate_def 1 2 3 assms(5,6,7) ebind_def call_curve_def)
qed

lemma example_continuous_yields:
  shows "get_curve example_curve_continuous ''linear'' ''yield''
           = Inr (Some (\<lambda>t. np_interp t (zcb_T_s example_curve_continuous)
                                          (zcb_r_s example_curve_continuous)))"
    and "np_interp 1 (zcb_T_s example_curve_continuous)
           (zcb_r_s example_curve_continuous) = Inr 5"
    and "np_interp 2 (zcb_T_s example_curve_continuous)
           (zcb_r_s example_curve_continuous) = Inr 6"
    and "np_interp 200 (zcb_T_s example_curve_continuous)
           (zcb_r_s example_curve_continuous) = Inr 6"
  by (simp_all add: get_curve_def np_interp_def example_curve_continuous_def)

lemma exp_7_in_range:
  shows "exp (7::real) < 2 ^ 1024 - 2 ^ 970" and "1 / 2 ^ 1075 < exp (7::real)"
proof -
  have "exp (real 7 * 1) = exp (1::real) ^ 7"
    by (rule exp_of_nat_mult)
  then have e: "exp (7::real) = exp 1 ^ 7"
    by simp
  have "exp (1::real) ^ 7 \<le> 3 ^ 7"
    by (rule power_mono) (simp_all add: exp_le)
  then have "exp (7::real) \<le> 2187"
    using e by simp
  moreover have "(2187::real) < 2 ^ 1024 - 2 ^ 970"
    by simp
  ultimately show "exp (7::real) < 2 ^ 1024 - 2 ^ 970"
    by (rule le_less_trans)
  have "(1::real) \<le> exp 7"
    by simp
  moreover have "1 / 2 ^ 1075 < (1::real)"
    by simp
  ultimately show "1 / 2 ^ 1075 < exp (7::real)"
    by (rule less_le_trans[rotated])
qed

text \<open>The example of the specification: on the continuous curve with \<open>y(1) = 5\<close> and
  \<open>y(2) = 6\<close> the forward rate from 1 to 2 is 7.\<close>

lemma forward_rate_continuous_example:
  "get_forward_rate example_calendar example_curve_continuous (PyInt 1) (PyInt 2)
     ''linear'' 0 = Inr (Finite 7)"
proof -
  have n1: "num_of (PyInt 1) = Some 1" and n2: "num_of (PyInt 2) = Some 2"
    by simp_all
  have r1: "exp (6 * 2 - 5 * 1 :: real) < 2 ^ 1024 - 2 ^ 970"
    and r2: "1 / 2 ^ 1075 < exp (6 * 2 - 5 * 1 :: real)"
    using exp_7_in_range by simp_all
  show ?thesis
    using forward_rate_continuous_in_range[OF n1 n2 _ _ example_continuous_yields(1,2,3)
            r1 r2, of example_calendar]
    by simp
qed

lemma exp_1195_overflows: "(2::real) ^ 1024 - 2 ^ 970 \<le> exp 1195"
proof -
  have "exp (real 1195 * 1) = exp (1::real) ^ 1195"
    by (rule exp_of_nat_mult)
  then have e: "exp (1195::real) = exp 1 ^ 1195"
    by simp
  have "(2::real) \<le> exp 1"
    using exp_ge_add_one_self[of "1::real"] by simp
  then have "(2::real) ^ 1195 \<le> exp 1 ^ 1195"
    by (intro power_mono) simp_all
  moreover have "(2::real) ^ 1024 \<le> 2 ^ 1195"
    by (rule power_increasing) simp_all
  moreover have "(2::real) ^ 1024 - 2 ^ 970 \<le> 2 ^ 1024"
    by simp
  ultimately show ?thesis
    using e by linarith
qed

text \<open>
  Claim C4. The claim is that for numeric times \<open>0 \<le> t < T\<close> and compounding frequency 0
  the forward rate is the closed form \<open>(y(T) T - y(t) t) / (T - t)\<close>. The code computes
  \<open>np.log(np.exp(y(T) T - y(t) t)) / (T - t)\<close>, and \<open>np.exp\<close> overflows: on the curve
  with \<open>y(1) = 5\<close> and \<open>y(2) = 6\<close>, the forward rate from 1 to 200 (where \<open>y(200) = 6\<close>
  and the closed form is \<open>1195/199\<close>) is \<open>inf\<close>.
\<close>

theorem forward_rate_continuous_overflow:
  "ZCB_curve_init example_calendar ''2023-06-01'' [1, 2] [5, 6] ''yield'' 0
     = Inr example_curve_continuous
   \<and> get_forward_rate example_calendar example_curve_continuous (PyInt 1) (PyInt 200)
       ''linear'' 0 = Inr PosInf"
proof
  show "ZCB_curve_init example_calendar ''2023-06-01'' [1, 2] [5, 6] ''yield'' 0
     = Inr example_curve_continuous"
    by (rule example_curve_continuous_init)
  have 1: "resolve_t example_calendar example_curve_continuous (PyInt 1) = Inr (None, 1)"
    by (simp add: resolve_t_num)
  have 2: "resolve_T example_calendar example_curve_continuous None 1 (PyInt 200) = Inr 200"
    by (simp add: resolve_T_num)
  have 3: "np_exp 1195 = PosInf"
    using exp_1195_overflows by (simp add: np_exp_def)
  show "get_forward_rate example_calendar example_curve_continuous (PyInt 1) (PyInt 200)
       ''linear'' 0 = Inr PosInf"
    by (simp add: get_forward_rate_def 1 2 3 example_continuous_yields ebind_def
          call_curve_def)
qed

subsection \<open>Time arguments of the curve queries\<close>

text \<open>
  Claim C10. With \<open>t\<close> a non-negative number and \<open>T\<close> a date string, \<open>get_discount_factor\<close>
  and \<open>get_forward_rate\<close> raise \<open>UnboundLocalError\<close>: the branch for a string \<open>T\<close> reads the
  local variable \<open>tdt\<close>, which is assigned only when \<open>t\<close> is a string.
\<close>

theorem numeric_t_date_T_unbound:
  assumes "num_of t = Some x" and "0 \<le> x" and "strptime_date cal s = Some d"
  shows "get_discount_factor cal c t (PyStr s) interpo = Inl UnboundLocalError
       \<and> get_forward_rate cal c t (PyStr s) interpo cf = Inl UnboundLocalError"
proof -
  have 1: "resolve_t cal c t = Inr (None, x)"
    using assms(1,2) by (simp add: resolve_t_num)
  have 2: "resolve_T cal c None x (PyStr s) = Inl UnboundLocalError"
    using assms(3) by (simp add: resolve_T_def)
  show ?thesis
    by (simp add: get_discount_factor_def get_forward_rate_def 1 2 ebind_def)
qed

theorem numeric_t_date_T_unbound_witness:
  "num_of (PyInt 0) = Some 0 \<and> (0::real) \<le> 0
   \<and> strptime_date example_calendar ''2023-09-01'' = Some 738764
   \<and> get_discount_factor example_calendar example_curve (PyInt 0) (PyStr ''2023-09-01'')
       ''linear'' = Inl UnboundLocalError
   \<and> get_forward_rate example_calendar example_curve (PyInt 0) (PyStr ''2023-09-01'')
       ''linear'' (1 / 2) = Inl UnboundLocalError"
  using numeric_t_date_T_unbound[of "PyInt 0" 0 example_calendar "''2023-09-01''" 738764
          example_curve "''linear''" "1 / 2"] cal_0901
  by simp

text \<open>The preconditions \<open>get_discount_factor\<close> does check: a negative numeric \<open>t\<close>, a
  numeric \<open>T\<close> that is not greater than \<open>t\<close>, a date \<open>t\<close> before the reference date of the
  curve, and a date \<open>T\<close> before the date \<open>t\<close> (hence every date \<open>T\<close> before the reference
  date) all fail the assertions.\<close>

lemma get_discount_factor_rejects_numeric:
  shows "num_of t = Some x \<Longrightarrow> x < 0 \<Longrightarrow>
           get_discount_factor cal c t T interpo = Inl AssertionError"
    and "num_of t = Some x \<Longrightarrow> num_of T = Some y \<Longrightarrow> y \<le> x \<Longrightarrow>
           get_discount_factor cal c t T interpo = Inl AssertionError"
  by (simp_all add: get_discount_factor_def resolve_t_num resolve_T_num ebind_def)

lemma get_discount_factor_rejects_dates:
  shows "strptime_date cal s = Some d \<Longrightarrow> d < zcb_t c \<Longrightarrow>
           get_discount_factor cal c (PyStr s) T interpo = Inl AssertionError"
    and "strptime_date cal s = Some d \<Longrightarrow> strptime_date cal s' = Some d' \<Longrightarrow>
           d' < d \<or> d' < zcb_t c \<Longrightarrow>
           get_discount_factor cal c (PyStr s) (PyStr s') interpo = Inl AssertionError"
  by (auto simp: get_discount_factor_def resolve_t_def resolve_T_def ebind_def)

text \<open>
  Claim C5. The claim is that \<open>get_discount_factor\<close> fails whenever \<open>T\<close> is not strictly
  greater than \<open>t\<close>, for numbers and for date strings. For numbers the code asserts
  \<open>t < T\<close>; for date strings it asserts \<open>tdt <= Tdt\<close>, so two equal dates pass: on the
  example curve, the query from 2023-09-01 to 2023-09-01 returns 1.
\<close>

theorem discount_factor_equal_dates_accepted:
  "get_discount_factor example_calendar example_curve (PyStr ''2023-09-01'')
     (PyStr ''2023-09-01'') ''linear'' = Inr 1"
  by (simp add: get_discount_factor_def resolve_t_def resolve_T_def cal_0901 ebind_def
        get_curve_def call_curve_def np_interp_def example_curve_def DAYS_IN_YEAR_def)

subsection \<open>Interpolation methods\<close>

text \<open>For an interpolation method other than \<open>'linear'\<close>, \<open>get_curve\<close> prints a message and
  returns \<open>None\<close> without raising (for either representation); \<open>get_discount_factor\<close> then
  never returns a result: it fails its time checks or, for numeric times \<open>0 \<le> t < T\<close>
  that pass them, it calls the \<open>None\<close>.\<close>

lemma unsupported_interpolation_general:
  assumes "interpo \<noteq> ''linear''"
  shows "(which \<in> {''yield'', ''discount factor''} \<longrightarrow> get_curve c interpo which = Inr None)
     \<and> isl (get_discount_factor cal c t T interpo)
     \<and> (num_of t = Some x \<and> num_of T = Some y \<and> 0 \<le> x \<and> x < y \<longrightarrow>
          get_discount_factor cal c t T interpo = Inl TypeError)"
proof -
  have g: "get_curve c interpo ''discount factor'' = Inr None"
    using assms by (simp add: get_curve_def)
  have a: "isl (get_discount_factor cal c t T interpo)"
    by (auto simp: get_discount_factor_def g ebind_def call_curve_def split: sum.splits)
  have b: "get_discount_factor cal c t T interpo = Inl TypeError"
    if "num_of t = Some x" "num_of T = Some y" "0 \<le> x" "x < y"
    using that
    by (simp add: get_discount_factor_def resolve_t_num resolve_T_num g ebind_def
          call_curve_def)
  show ?thesis
    using assms a b by (auto simp: get_curve_def)
qed

text \<open>
  Claim C9. The claim is that an interpolation method other than \<open>'linear'\<close> is never a
  hard failure: \<open>get_curve\<close> returns no interpolator without raising, and
  \<open>get_discount_factor\<close> likewise gives a no-result signal. The first half holds. For the
  second, \<open>get_discount_factor\<close> does not look at what \<open>get_curve\<close> returned before calling
  it: on the example curve, with the method \<open>'cubic'\<close> and the times 0.5 and 1,
  \<open>get_curve\<close> returns \<open>None\<close> and \<open>get_discount_factor\<close> raises \<open>TypeError\<close>.
\<close>

theorem unsupported_interpolation_raises:
  "get_curve example_curve ''cubic'' ''discount factor'' = Inr None
   \<and> get_discount_factor example_calendar example_curve (PyFloat (1 / 2)) (PyInt 1) ''cubic''
       = Inl TypeError"
  by (simp add: get_discount_factor_def resolve_t_def resolve_T_def get_curve_def
        call_curve_def ebind_def)

subsection \<open>Construction of an agreement\<close>

text \<open>
  Claim C8. When one of \<open>T\<close> and \<open>S\<close> is a date string and the other a number, the
  constructor fails the assertion \<open>type(T) == type(S)\<close>, whatever the other arguments
  are: nothing is parsed and no curve is read before.
\<close>

theorem FRA_mixed_types_rejected:
  assumes "(\<exists>s. T = PyStr s) \<and> num_of S \<noteq> None \<or> num_of T \<noteq> None \<and> (\<exists>s. S = PyStr s)"
  shows "FRA_init cal t T S tau N c cf = Inl AssertionError"
  using assms by (cases T; cases S) (auto simp: FRA_init_def)

theorem FRA_mixed_types_rejected_witness:
  "((\<exists>s. PyStr ''2023-09-01'' = PyStr s) \<and> num_of (PyInt 183) \<noteq> None
      \<or> num_of (PyStr ''2023-09-01'') \<noteq> None \<and> (\<exists>s. PyInt 183 = PyStr s))
   \<and> FRA_init example_calendar ''2023-06-01'' (PyStr ''2023-09-01'') (PyInt 183)
       (91 / 365) 1000000 example_curve (1 / 2) = Inl AssertionError"
  using FRA_mixed_types_rejected[of "PyStr ''2023-09-01''" "PyInt 183" example_calendar
          "''2023-06-01''" "91 / 365" 1000000 example_curve "1 / 2"]
  by simp

text \<open>
  Claim C7. The claim is that a construction from date strings stores the day offsets of
  \<open>T\<close> and \<open>S\<close> and computes the same fair rate as the construction from the day offsets.
  The branch for date strings stores the offsets divided by 365, and the fair rate reads
  the curve at the stored value divided by 365 once more. For the agreement from
  2023-09-01 to 2023-12-01 on the example curve: the dates give \<open>T = 92/365\<close>,
  \<open>S = 183/365\<close> and \<open>K = 0\<close>; the day offsets 92 and 183 give \<open>T = 92\<close>, \<open>S = 183\<close> and
  \<open>K = 256595/801466172\<close>.
\<close>

theorem FRA_dates_store_years:
  "FRA_init example_calendar ''2023-06-01'' (PyStr ''2023-09-01'') (PyStr ''2023-12-01'')
       (91 / 365) 1000000 example_curve (1 / 2) = Inr example_FRA_dates
   \<and> FRA_init example_calendar ''2023-06-01'' (PyInt 92) (PyInt 183)
       (91 / 365) 1000000 example_curve (1 / 2) = Inr example_FRA_days
   \<and> fra_dtT example_FRA_dates = fra_dtT example_FRA_days
   \<and> fra_dtS example_FRA_dates = fra_dtS example_FRA_days
   \<and> fra_T example_FRA_dates = 92 / 365 \<and> fra_T example_FRA_days = 92
   \<and> fra_S example_FRA_dates = 183 / 365 \<and> fra_S example_FRA_days = 183
   \<and> fra_K example_FRA_dates = 0 \<and> fra_K example_FRA_days = 256595 / 801466172"
  using example_FRA_dates_init example_FRA_days_init
  by (simp add: example_FRA_dates_def example_FRA_days_def)

subsection \<open>Valuation of an agreement\<close>

lemma round_half_even_nonneg: "0 \<le> x \<Longrightarrow> 0 \<le> round_half_even x"
  by (auto simp: round_half_even_def Let_def)

lemma timedelta_days_nonneg:
  assumes "timedelta_days v = Inr n" and "num_of v = Some x" and "0 \<le> x"
  shows "0 \<le> n"
proof (cases v)
  case (PyInt k)
  then show ?thesis
    using assms by (auto simp: timedelta_days_def split: if_splits)
next
  case (PyFloat y)
  then have "0 \<le> round_half_even (y * 86400000000)"
    using assms by (intro round_half_even_nonneg) simp
  then have "0 \<le> round_half_even (y * 86400000000) div 86400000000"
    by (simp add: pos_imp_zdiv_nonneg_iff)
  then show ?thesis
    using PyFloat assms by (auto simp: timedelta_days_def Let_def split: if_splits)
qed (use assms in auto)

lemma date_add_zero:
  assumes "MINORDINAL \<le> d \<and> d \<le> MAXORDINAL"
  shows "date_add d (PyInt 0) = Inr d" and "date_add d (PyFloat 0) = Inr d"
  using assms by (simp_all add: date_add_def timedelta_days_def ebind_def round_half_even_def)

text \<open>A maturity stored as a non-negative number is a date not before inception.\<close>

lemma FRA_times_nonneg:
  assumes "FRA_times cal dtt T S tau = Inr (dtT, dtS, Tn, Sn, tau')" and "0 \<le> Tn"
  shows "dtt \<le> dtT"
proof (cases "\<exists>sT sS. T = PyStr sT \<and> S = PyStr sS")
  case True
  then show ?thesis
    using assms by (auto simp: FRA_times_def DAYS_IN_YEAR_def split: option.splits)
next
  case False
  then obtain x y where n: "num_of T = Some x" "num_of S = Some y"
    and r: "ebind (date_add dtt T) (\<lambda>dtT.
               ebind (date_add dtt S) (\<lambda>dtS.
                 if tau = (y - x) / 365 then Inr (dtT, dtS, x, y, tau)
                 else Inl AssertionError)) = Inr (dtT, dtS, Tn, Sn, tau')"
    using assms(1) by (cases T; cases S) (auto simp: FRA_times_def)
  from r have dT: "date_add dtt T = Inr dtT" and x: "x = Tn"
    by (auto simp: ebind_def split: sum.splits if_splits)
  from dT obtain k where k: "timedelta_days T = Inr k" and "dtT = dtt + k"
    by (auto simp: date_add_def ebind_def split: sum.splits if_splits)
  moreover have "0 \<le> k"
    using timedelta_days_nonneg[OF k n(1)] x assms(2) by simp
  ultimately show ?thesis by simp
qed

text \<open>What a successful construction has stored.\<close>

lemma FRA_init_Inr:
  assumes "FRA_init cal t T S tau N c cf = Inr f"
  shows "strptime_date cal t = Some (fra_dtt f)"
    and "FRA_times cal (fra_dtt f) T S tau
           = Inr (fra_dtT f, fra_dtS f, fra_T f, fra_S f, fra_tau f)"
    and "\<exists>pT pS. np_interp (fra_T f / DAYS_IN_YEAR) (zcb_T_s c) (zcb_dcf c) = Inr pT
              \<and> np_interp (fra_S f / DAYS_IN_YEAR) (zcb_T_s c) (zcb_dcf c) = Inr pS
              \<and> fra_K f = (pT / pS - 1) / fra_tau f"
  using assms
  by (auto simp: FRA_init_def ebind_def get_curve_def call_curve_def
           split: if_splits option.splits sum.splits prod.splits)

lemma np_interp_defined:
  "xp \<noteq> [] \<Longrightarrow> length xp = length fp \<Longrightarrow> \<exists>v. np_interp x xp fp = Inr v"
  by (simp add: np_interp_def)

text \<open>The constructor succeeds on day offsets within its documented precondition: whole
  days \<open>0 \<le> T < S\<close> that stay within the range of dates, the accrual fraction
  \<open>(S - T)/365\<close>, and a non-empty curve anchored at the inception date.\<close>

lemma FRA_init_day_offsets:
  assumes "strptime_date cal t = Some d" and "zcb_t c = d"
    and "0 \<le> m" and "m < n" and "d + n \<le> MAXORDINAL"
    and "zcb_T_s c \<noteq> []" and "length (zcb_T_s c) = length (zcb_dcf c)"
  shows "\<exists>f. FRA_init cal t (PyInt m) (PyInt n) ((real_of_int n - real_of_int m) / 365) N c cf = Inr f
           \<and> fra_T f = real_of_int m \<and> fra_S f = real_of_int n \<and> fra_dtt f = d
           \<and> fra_dtT f = d + m \<and> fra_dtS f = d + n"
proof -
  have rng: "MINORDINAL \<le> d \<and> d \<le> MAXORDINAL"
    using strptime_date_range[OF assms(1)] .
  have dT: "date_add d (PyInt m) = Inr (d + m)" and dS: "date_add d (PyInt n) = Inr (d + n)"
    using rng assms(3,4,5)
    by (auto simp: date_add_def timedelta_days_def ebind_def MINORDINAL_def MAXORDINAL_def)
  have times: "FRA_times cal d (PyInt m) (PyInt n) ((real_of_int n - real_of_int m) / 365)
                 = Inr (d + m, d + n, real_of_int m, real_of_int n, (real_of_int n - real_of_int m) / 365)"
    by (simp add: FRA_times_def dT dS ebind_def)
  obtain pT where pT: "np_interp (real_of_int m / DAYS_IN_YEAR) (zcb_T_s c) (zcb_dcf c) = Inr pT"
    using np_interp_defined[OF assms(6,7)] by blast
  obtain pS where pS: "np_interp (real_of_int n / DAYS_IN_YEAR) (zcb_T_s c) (zcb_dcf c) = Inr pS"
    using np_interp_defined[OF assms(6,7)] by blast
  show ?thesis
    using assms(2,4)
    by (simp add: FRA_init_def assms(1) times ebind_def get_curve_def call_curve_def pT pS)
qed

text \<open>
  Claim C2. Take an agreement as the constructor returned it (\<open>K\<close> not overridden), with
  the maturity not before inception, as the constructor's docstring requires
  (\<open>t <= T < S\<close>, that is a stored \<open>T\<close> that is not negative), on a curve whose discount
  factor at the settlement time is not zero (so that \<open>K\<close> is a finite number). Then
  \<open>get_value\<close> at inception, given as the number 0 (\<open>int\<close> or \<open>float\<close>) or as the inception
  date string, with the curve of the construction, returns 0: the forward rate it
  recomputes is \<open>K\<close>.
\<close>

theorem value_at_inception_zero:
  assumes "FRA_init cal t T S tau N c cf = Inr f" and "0 \<le> fra_T f"
    and "np_interp (fra_S f / DAYS_IN_YEAR) (zcb_T_s c) (zcb_dcf c) \<noteq> Inr 0"
  shows "get_value cal f (PyInt 0) c = Inr 0
       \<and> get_value cal f (PyFloat 0) c = Inr 0
       \<and> get_value cal f (PyStr t) c = Inr 0"
proof -
  note h = FRA_init_Inr[OF assms(1)]
  from h(3) obtain pT pS where
    pT: "np_interp (fra_T f / DAYS_IN_YEAR) (zcb_T_s c) (zcb_dcf c) = Inr pT" and
    pS: "np_interp (fra_S f / DAYS_IN_YEAR) (zcb_T_s c) (zcb_dcf c) = Inr pS" and
    K: "fra_K f = (pT / pS - 1) / fra_tau f"
    by blast
  note g = get_curve_linear_discount[of c]
  have v: "value_at f (Some (\<lambda>x. np_interp x (zcb_T_s c) (zcb_dcf c))) 0 = Inr 0"
    by (simp add: value_at_def call_curve_def ebind_def pT pS K)
  have rng: "MINORDINAL \<le> fra_dtt f \<and> fra_dtt f \<le> MAXORDINAL"
    using strptime_date_range[OF h(1)] .
  have le: "fra_dtt f \<le> fra_dtT f"
    using FRA_times_nonneg[OF h(2) assms(2)] .
  have 1: "get_value cal f (PyInt 0) c = Inr 0"
    using assms(2) by (simp add: get_value_def g ebind_Inr date_add_zero[OF rng] v)
  have 2: "get_value cal f (PyFloat 0) c = Inr 0"
    using assms(2) by (simp add: get_value_def g ebind_Inr date_add_zero[OF rng] v)
  have 3: "get_value cal f (PyStr t) c = Inr 0"
    using le by (simp add: get_value_def g ebind_Inr h(1) v)
  show ?thesis
    using 1 2 3 by simp
qed

text \<open>The agreement constructed from the day offsets 92 and 183: its fair rate is
  \<open>256595/801466172\<close>, the discount factor at settlement is \<open>493209952/505580553\<close>, and its
  value at inception is 0.\<close>

theorem value_at_inception_zero_witness:
  "FRA_init example_calendar ''2023-06-01'' (PyInt 92) (PyInt 183)
       (91 / 365) 1000000 example_curve (1 / 2) = Inr example_FRA_days
   \<and> 0 \<le> fra_T example_FRA_days
   \<and> np_interp (fra_S example_FRA_days / DAYS_IN_YEAR) (zcb_T_s example_curve)
       (zcb_dcf example_curve) = Inr (493209952 / 505580553)
   \<and> fra_K example_FRA_days = 256595 / 801466172
   \<and> get_value example_calendar example_FRA_days (PyInt 0) example_curve = Inr 0
   \<and> get_value example_calendar example_FRA_days (PyFloat 0) example_curve = Inr 0
   \<and> get_value example_calendar example_FRA_days (PyStr ''2023-06-01'') example_curve
       = Inr 0"
proof -
  have p: "0 \<le> fra_T example_FRA_days"
    by (simp add: example_FRA_days_def)
  have q: "np_interp (fra_S example_FRA_days / DAYS_IN_YEAR) (zcb_T_s example_curve)
       (zcb_dcf example_curve) = Inr (493209952 / 505580553)"
    by (simp add: np_interp_def example_FRA_days_def example_curve_def DAYS_IN_YEAR_def)
  have q': "np_interp (fra_S example_FRA_days / DAYS_IN_YEAR) (zcb_T_s example_curve)
       (zcb_dcf example_curve) \<noteq> Inr 0"
    by (simp add: q)
  have k: "fra_K example_FRA_days = 256595 / 801466172"
    by (simp add: example_FRA_days_def)
  show ?thesis
    using value_at_inception_zero[OF example_FRA_days_init p q'] example_FRA_days_init p q k
    by simp
qed

text \<open>The constructor does not check the first half of its documented precondition
  \<open>t <= T < S\<close>: it accepts the day offsets \<open>T = -10\<close> and \<open>S = 20\<close>, and the window check of
  \<open>get_value\<close> then refuses the inception time for that agreement.\<close>

lemma FRA_maturity_before_inception:
  "FRA_init example_calendar ''2023-06-01'' (PyInt (- 10)) (PyInt 20)
       (30 / 365) 1000000 example_curve (1 / 2) = Inr example_FRA_early
   \<and> get_value example_calendar example_FRA_early (PyInt 0) example_curve
       = Inl AssertionError"
proof
  show "FRA_init example_calendar ''2023-06-01'' (PyInt (- 10)) (PyInt 20)
       (30 / 365) 1000000 example_curve (1 / 2) = Inr example_FRA_early"
    by (rule example_FRA_early_init)
  show "get_value example_calendar example_FRA_early (PyInt 0) example_curve
       = Inl AssertionError"
    by (simp add: get_value_def ebind_def get_curve_def example_FRA_early_def)
qed

text \<open>The checks \<open>get_value\<close> does make: a \<open>t\<close> that is neither a number nor a string is a
  \<open>TypeError\<close>, a number greater than the stored \<open>T\<close> fails the assertion, and so does a
  date before inception or after the maturity date.\<close>

lemma get_value_rejects:
  shows "get_value cal f PyNone c = Inl TypeError"
    and "num_of t = Some x \<Longrightarrow> fra_T f < x \<Longrightarrow> get_value cal f t c = Inl AssertionError"
    and "strptime_date cal s = Some d \<Longrightarrow> d < fra_dtt f \<or> fra_dtT f < d \<Longrightarrow>
           get_value cal f (PyStr s) c = Inl AssertionError"
  by (auto simp: get_value_def get_curve_linear_discount ebind_Inr)

text \<open>
  Claim C6. The claim is that \<open>get_value\<close> fails for every \<open>t\<close> outside the window from
  inception to \<open>T\<close>, in particular for every negative number. For a number the code only
  asserts \<open>t <= self.T\<close>; the lower bound is checked for date strings alone. On the
  agreement constructed from the day offsets 92 and 183, \<open>get_value(-1, curve)\<close> returns a
  value.
\<close>

theorem get_value_negative_time_accepted:
  "FRA_init example_calendar ''2023-06-01'' (PyInt 92) (PyInt 183)
       (91 / 365) 1000000 example_curve (1 / 2) = Inr example_FRA_days
   \<and> get_value example_calendar example_FRA_days (PyInt (- 1)) example_curve
       = Inr (25284165663750000 / 158344546466837)"
proof
  show "FRA_init example_calendar ''2023-06-01'' (PyInt 92) (PyInt 183)
       (91 / 365) 1000000 example_curve (1 / 2) = Inr example_FRA_days"
    by (rule example_FRA_days_init)
  show "get_value example_calendar example_FRA_days (PyInt (- 1)) example_curve
       = Inr (25284165663750000 / 158344546466837)"
    by (simp add: get_value_def value_at_def ebind_def get_curve_def call_curve_def
          np_interp_def example_curve_def example_FRA_days_def DAYS_IN_YEAR_def
          date_add_def timedelta_days_def MINORDINAL_def MAXORDINAL_def)
qed

end
